theory Spec2Isabelle
  imports Main
begin

section \<open>JavaScript values, strings and objects\<close>

text \<open>
  The class \<^verbatim>\<open>ObjectContainer<T>\<close> of \<^verbatim>\<open>src/src/ObjectContainer.ts\<close> keeps its entries in
  a JavaScript object and reads, writes and deletes them with \<^verbatim>\<open>this.data[key]\<close>. What
  these do is fixed by the language, so objects are modelled first.

  A value is \<^verbatim>\<open>undefined\<close>, \<^verbatim>\<open>null\<close>, a boolean, a number (an integer or \<^verbatim>\<open>NaN\<close>), a
  string or an object. An object has an identity, its own properties in the order
  \<^verbatim>\<open>for ... in\<close> and \<^verbatim>\<open>Object.keys\<close> list them (array indices in ascending order, then the
  other keys in the order they were created), a prototype and the flag that
  \<^verbatim>\<open>Object.preventExtensions\<close>, \<^verbatim>\<open>Object.seal\<close> and \<^verbatim>\<open>Object.freeze\<close> clear. A property holds a
  value and the attributes writable, enumerable and configurable. The prototype is
  \<^verbatim>\<open>Object.prototype\<close>, \<^verbatim>\<open>null\<close> or another object. Objects are ordinary objects with data
  properties: getters and setters written by the caller, proxies, arrays and functions
  are not modelled.

  An object is held by value. The container changes no object but its store, so the
  objects it holds and the prototypes of its store are constant while it runs (a store
  that is put into itself is held as it was then); two objects are the same object when
  they have the same identity. \<open>Caller n\<close> names an
  object the caller has created, \<open>Fresh n\<close> the \<open>n\<close>-th object the code of the container
  creates with \<^verbatim>\<open>{}\<close>.
\<close>

datatype objectId = Caller nat | Fresh nat

datatype jsval = Undefined | Null | Bool bool | Num int | NaN | Str string | Obj jsobj
and jsobj =
  JSObj (ident: objectId) (props: "(string \<times> jsprop) list") (proto: prototype) (extensible: bool)
and jsprop = Prop (propValue: jsval) (writable: bool) (enumerable: bool) (configurable: bool)
and prototype = ObjectPrototype | NullPrototype | Proto jsobj

text \<open>
  What a read yields: a value, or one of the built-in objects that \<^verbatim>\<open>Object.prototype\<close>
  holds. \<open>Intrinsic n\<close> is the object found there under the name \<open>n\<close>; for \<^verbatim>\<open>__proto__\<close>,
  whose getter returns the prototype of the object that is read, it is
  \<^verbatim>\<open>Object.prototype\<close> itself. The built-in objects are functions; callers do not pass
  them to the container here.
\<close>

datatype jsread = Val jsval | Intrinsic string

text \<open>A write or a \<^verbatim>\<open>delete\<close> that the object refuses throws, as class code is strict.\<close>

datatype error = TypeError

text \<open>
  \<^verbatim>\<open>a === b\<close>: equal values of the same type, except that \<^verbatim>\<open>NaN\<close> equals nothing; two
  objects are equal when they are the same object.
\<close>

fun strictEq :: "jsread \<Rightarrow> jsread \<Rightarrow> bool" where
  "strictEq (Val NaN) b = False"
| "strictEq a (Val NaN) = False"
| "strictEq (Val (Obj a)) (Val (Obj b)) = (ident a = ident b)"
| "strictEq a b = (a = b)"

text \<open>
  A string is a list of characters with codes 0 to 255 (Latin-1), one \<open>char\<close> each.
  \<^verbatim>\<open>String.prototype.toLowerCase\<close> maps the capitals \<^verbatim>\<open>A-Z\<close> (65 to 90) and the accented
  capitals 192 to 222, the multiplication sign 215 apart, to the character 32 places up,
  and leaves every other character of this range alone.
\<close>

definition isUpperCode :: "nat \<Rightarrow> bool" where
  "isUpperCode n = ((65 \<le> n \<and> n \<le> 90) \<or> (192 \<le> n \<and> n \<le> 222 \<and> n \<noteq> 215))"

definition lowerChar :: "char \<Rightarrow> char" where
  "lowerChar c = (if isUpperCode (of_char c) then char_of ((of_char c :: nat) + 32) else c)"

definition toLowerCase :: "string \<Rightarrow> string" where
  "toLowerCase s = map lowerChar s"

text \<open>
  The property an assignment or an object literal creates, the object \<^verbatim>\<open>{}\<close>, and the
  object literal \<^verbatim>\<open>{k1: v1, ...}\<close> (its keys in the order they are listed, none of them
  \<^verbatim>\<open>__proto__\<close>, which a literal reads as the prototype).
\<close>

definition dataProp :: "jsval \<Rightarrow> jsprop" where
  "dataProp v = Prop v True True True"

definition emptyObject :: "objectId \<Rightarrow> jsobj" where
  "emptyObject i = JSObj i [] ObjectPrototype True"

definition objectLiteral :: "objectId \<Rightarrow> (string \<times> jsval) list \<Rightarrow> jsobj" where
  "objectLiteral i kvs = JSObj i (map (\<lambda>kv. (fst kv, dataProp (snd kv))) kvs) ObjectPrototype True"

text \<open>The property names of \<^verbatim>\<open>Object.prototype\<close>; none of them is enumerable.\<close>

definition objectPrototypeNames :: "string list" where
  "objectPrototypeNames =
     [''constructor'', ''__defineGetter__'', ''__defineSetter__'', ''hasOwnProperty'',
      ''__lookupGetter__'', ''__lookupSetter__'', ''isPrototypeOf'',
      ''propertyIsEnumerable'', ''toString'', ''valueOf'', ''__proto__'',
      ''toLocaleString'']"

text \<open>
  Where a key is found: among the own properties, on an object of the prototype chain,
  on \<^verbatim>\<open>Object.prototype\<close> at the end of the chain, or nowhere.
\<close>

datatype found = Own jsprop | Inherited jsprop | Builtin string | Missing

fun inheritedProp :: "prototype \<Rightarrow> string \<Rightarrow> found" where
  "inheritedProp NullPrototype key = Missing"
| "inheritedProp ObjectPrototype key =
     (if key \<in> set objectPrototypeNames then Builtin key else Missing)"
| "inheritedProp (Proto (JSObj i ps p e)) key =
     (case map_of ps key of
        Some pr \<Rightarrow> Inherited pr
      | None \<Rightarrow> inheritedProp p key)"

definition findProp :: "jsobj \<Rightarrow> string \<Rightarrow> found" where
  "findProp obj key =
     (case map_of (props obj) key of
        Some pr \<Rightarrow> Own pr
      | None \<Rightarrow> inheritedProp (proto obj) key)"

text \<open>What the getter of \<^verbatim>\<open>__proto__\<close> returns for an object with the given prototype.\<close>

definition prototypeValue :: "prototype \<Rightarrow> jsread" where
  "prototypeValue p =
     (case p of
        ObjectPrototype \<Rightarrow> Intrinsic ''__proto__''
      | NullPrototype \<Rightarrow> Val Null
      | Proto obj \<Rightarrow> Val (Obj obj))"

text \<open>\<^verbatim>\<open>obj[key]\<close> as a read.\<close>

definition getProp :: "jsobj \<Rightarrow> string \<Rightarrow> jsread" where
  "getProp obj key =
     (case findProp obj key of
        Own pr \<Rightarrow> Val (propValue pr)
      | Inherited pr \<Rightarrow> Val (propValue pr)
      | Builtin n \<Rightarrow> if n = ''__proto__'' then prototypeValue (proto obj) else Intrinsic n
      | Missing \<Rightarrow> Val Undefined)"

text \<open>
  An array index is the canonical decimal numeral of a number below \<open>2^32 - 1\<close>. A new
  property with such a key is listed among the array indices, in ascending order; any
  other new property is listed last.
\<close>

definition isDigit :: "char \<Rightarrow> bool" where
  "isDigit c = (48 \<le> (of_char c :: nat) \<and> (of_char c :: nat) \<le> 57)"

definition decimal :: "string \<Rightarrow> int" where
  "decimal s = foldl (\<lambda>n c. 10 * n + ((of_char c :: int) - 48)) 0 s"

definition arrayIndex :: "string \<Rightarrow> int option" where
  "arrayIndex s =
     (if s \<noteq> [] \<and> list_all isDigit s \<and> (if hd s = CHR ''0'' then s = ''0'' else True)
         \<and> decimal s < 4294967295
      then Some (decimal s) else None)"

definition listedBefore :: "string \<Rightarrow> string \<Rightarrow> bool" where
  "listedBefore k k' =
     (case arrayIndex k of
        None \<Rightarrow> False
      | Some i \<Rightarrow> (case arrayIndex k' of None \<Rightarrow> True | Some j \<Rightarrow> i < j))"

fun insertProp :: "string \<Rightarrow> 'a \<Rightarrow> (string \<times> 'a) list \<Rightarrow> (string \<times> 'a) list" where
  "insertProp k v [] = [(k, v)]"
| "insertProp k v (p # ps) =
     (if listedBefore k (fst p) then (k, v) # p # ps else p # insertProp k v ps)"

text \<open>
  Giving an object a new prototype, as the setter of \<^verbatim>\<open>__proto__\<close> does: nothing happens
  when the prototype is the one the object has; an object that is not extensible refuses,
  and so does every object for a prototype whose chain leads back to it.
\<close>

fun samePrototype :: "prototype \<Rightarrow> prototype \<Rightarrow> bool" where
  "samePrototype ObjectPrototype ObjectPrototype = True"
| "samePrototype NullPrototype NullPrototype = True"
| "samePrototype (Proto a) (Proto b) = (ident a = ident b)"
| "samePrototype p q = False"

fun chainIds :: "prototype \<Rightarrow> objectId list" where
  "chainIds NullPrototype = []"
| "chainIds ObjectPrototype = []"
| "chainIds (Proto (JSObj i ps p e)) = i # chainIds p"

definition setPrototype :: "jsobj \<Rightarrow> prototype \<Rightarrow> error + jsobj" where
  "setPrototype obj p =
     (if samePrototype p (proto obj) then Inr obj
      else if \<not> extensible obj then Inl TypeError
      else if ident obj \<in> set (chainIds p) then Inl TypeError
      else Inr (JSObj (ident obj) (props obj) p (extensible obj)))"

text \<open>
  The setter of \<^verbatim>\<open>__proto__\<close> on \<^verbatim>\<open>Object.prototype\<close>, called for the object that is
  assigned to: a value that is neither an object nor \<^verbatim>\<open>null\<close> is ignored.
\<close>

definition protoSetter :: "jsobj \<Rightarrow> jsval \<Rightarrow> error + jsobj" where
  "protoSetter obj v =
     (case v of
        Null \<Rightarrow> setPrototype obj NullPrototype
      | Obj p \<Rightarrow> setPrototype obj (Proto p)
      | _ \<Rightarrow> Inr obj)"

text \<open>A new own property; an object that is not extensible takes none.\<close>

definition createProp :: "jsobj \<Rightarrow> string \<Rightarrow> jsval \<Rightarrow> error + jsobj" where
  "createProp obj key v =
     (if extensible obj
      then Inr (JSObj (ident obj) (insertProp key (dataProp v) (props obj)) (proto obj)
             (extensible obj))
      else Inl TypeError)"

text \<open>
  \<^verbatim>\<open>obj[key] = value\<close> in strict code. An own property is overwritten where it stands if
  it is writable. A property found on the prototype chain that is not writable refuses
  the write. The key \<^verbatim>\<open>__proto__\<close> found on \<^verbatim>\<open>Object.prototype\<close> is an accessor, and its
  setter is called. In every other case the object gets a new own property.
\<close>

definition overwrite :: "string \<Rightarrow> jsval \<Rightarrow> (string \<times> jsprop) list \<Rightarrow> (string \<times> jsprop) list" where
  "overwrite key v ps =
     map (\<lambda>p. if fst p = key
               then (key, Prop v (writable (snd p)) (enumerable (snd p)) (configurable (snd p)))
               else p) ps"

definition setProp :: "jsobj \<Rightarrow> string \<Rightarrow> jsval \<Rightarrow> error + jsobj" where
  "setProp obj key v =
     (case findProp obj key of
        Own pr \<Rightarrow>
          if writable pr
          then Inr (JSObj (ident obj) (overwrite key v (props obj)) (proto obj) (extensible obj))
          else Inl TypeError
      | Inherited pr \<Rightarrow> if writable pr then createProp obj key v else Inl TypeError
      | Builtin n \<Rightarrow> if n = ''__proto__'' then protoSetter obj v else createProp obj key v
      | Missing \<Rightarrow> createProp obj key v)"

text \<open>
  \<^verbatim>\<open>delete obj[key]\<close> in strict code removes an own property that is configurable, throws
  for one that is not, and does nothing for a key the object does not own.
\<close>

definition deleteProp :: "jsobj \<Rightarrow> string \<Rightarrow> error + jsobj" where
  "deleteProp obj key =
     (case map_of (props obj) key of
        None \<Rightarrow> Inr obj
      | Some pr \<Rightarrow>
          if configurable pr
          then Inr (JSObj (ident obj) (filter (\<lambda>p. fst p \<noteq> key) (props obj)) (proto obj)
                 (extensible obj))
          else Inl TypeError)"

text \<open>
  \<^verbatim>\<open>Object.keys(obj)\<close> and \<^verbatim>\<open>Object.values(obj)\<close> list the own enumerable properties.
  \<^verbatim>\<open>for (let k in obj)\<close> visits them and then, object by object along the prototype chain,
  the enumerable keys that no object before has, enumerable or not.
\<close>

definition enumerableKeys :: "(string \<times> jsprop) list \<Rightarrow> string list" where
  "enumerableKeys ps = map fst (filter (\<lambda>p. enumerable (snd p)) ps)"

definition ownKeys :: "jsobj \<Rightarrow> string list" where
  "ownKeys obj = enumerableKeys (props obj)"

definition ownValues :: "jsobj \<Rightarrow> jsval list" where
  "ownValues obj = map (\<lambda>p. propValue (snd p)) (filter (\<lambda>p. enumerable (snd p)) (props obj))"

fun inheritedKeys :: "prototype \<Rightarrow> string list \<Rightarrow> string list" where
  "inheritedKeys NullPrototype seen = []"
| "inheritedKeys ObjectPrototype seen = []"
| "inheritedKeys (Proto (JSObj i ps p e)) seen =
     filter (\<lambda>k. k \<notin> set seen) (enumerableKeys ps) @ inheritedKeys p (seen @ map fst ps)"

definition forInKeys :: "jsobj \<Rightarrow> string list" where
  "forInKeys obj = enumerableKeys (props obj) @ inheritedKeys (proto obj) (map fst (props obj))"

text \<open>
  The value read under a key that \<^verbatim>\<open>for ... in\<close> visits. Such a key names a data property
  of the object or of its chain, so the read yields a value.
\<close>

definition readValue :: "jsobj \<Rightarrow> string \<Rightarrow> jsval" where
  "readValue obj key = (case getProp obj key of Val v \<Rightarrow> v | Intrinsic n \<Rightarrow> Undefined)"

section \<open>The container\<close>

text \<open>
  The configuration a container holds has two booleans. The configuration passed to the
  constructor is an object of the same shape in which a flag may be unset (\<open>None\<close>), and
  the argument itself may be missing. Besides the two fields of the class, \<^verbatim>\<open>data\<close> and
  \<^verbatim>\<open>config\<close>, the state counts the objects that the code of the container has created
  with \<^verbatim>\<open>{}\<close> for \<^verbatim>\<open>data\<close>, which gives the next one its identity.
\<close>

record ObjectContainerConfiguration =
  convertAllKeysToLowerCase :: bool
  convertAllValuesToLowerCase :: bool

record ConfigurationArgument =
  keysFlag :: "bool option"
  valuesFlag :: "bool option"

record ObjectContainer =
  data :: jsobj
  config :: ObjectContainerConfiguration
  created :: nat

definition defaultConfig :: ObjectContainerConfiguration where
  "defaultConfig =
     \<lparr>convertAllKeysToLowerCase = False, convertAllValuesToLowerCase = False\<rparr>"

text \<open>\<^verbatim>\<open>if (flag)\<close> on a flag that is a boolean or unset.\<close>

definition truthy :: "bool option \<Rightarrow> bool" where
  "truthy flag = (flag = Some True)"

definition convertKey :: "ObjectContainer \<Rightarrow> string \<Rightarrow> string" where
  "convertKey c key =
     (if convertAllKeysToLowerCase (config c) then toLowerCase key else key)"

definition convertValue :: "ObjectContainer \<Rightarrow> jsval \<Rightarrow> jsval" where
  "convertValue c v =
     (if convertAllValuesToLowerCase (config c) \<and> v \<noteq> Undefined
      then (case v of Str s \<Rightarrow> Str (toLowerCase s) | _ \<Rightarrow> v)
      else v)"

text \<open>
  The body of the loop of \<^verbatim>\<open>prepareData\<close>, for one key of the old object, and the loop
  over the keys; a write that throws ends it.
\<close>

definition prepareEntry ::
  "ObjectContainerConfiguration \<Rightarrow> jsobj \<Rightarrow> jsobj \<Rightarrow> string \<Rightarrow> error + jsobj" where
  "prepareEntry cfg old new dataKey =
     (let v = readValue old dataKey;
          v' = (if convertAllValuesToLowerCase cfg
                then (case v of Str s \<Rightarrow> Str (toLowerCase s) | _ \<Rightarrow> v)
                else v);
          key = (if convertAllKeysToLowerCase cfg then toLowerCase dataKey else dataKey)
      in setProp new key v')"

fun prepareLoop ::
  "ObjectContainerConfiguration \<Rightarrow> jsobj \<Rightarrow> jsobj \<Rightarrow> string list \<Rightarrow> error + jsobj" where
  "prepareLoop cfg old new [] = Inr new"
| "prepareLoop cfg old new (k # ks) =
     (case prepareEntry cfg old new k of
        Inl e \<Rightarrow> Inl e
      | Inr new' \<Rightarrow> prepareLoop cfg old new' ks)"

definition prepareData :: "ObjectContainer \<Rightarrow> error + ObjectContainer" where
  "prepareData c =
     (if \<not> convertAllValuesToLowerCase (config c) \<and> \<not> convertAllKeysToLowerCase (config c)
      then Inr c
      else (case prepareLoop (config c) (data c) (emptyObject (Fresh (created c)))
                   (forInKeys (data c)) of
              Inl e \<Rightarrow> Inl e
            | Inr d \<Rightarrow> Inr (c\<lparr>data := d, created := created c + 1\<rparr>)))"

text \<open>
  \<^verbatim>\<open>new ObjectContainer(data, configuration)\<close>. The initialiser of the field \<^verbatim>\<open>data\<close>
  creates an object, \<^verbatim>\<open>data ?? {}\<close> creates a second one when \<^verbatim>\<open>data\<close> is missing and keeps
  the caller's object otherwise; a flag is taken over only when it is set and true.
\<close>

definition newObjectContainer ::
  "jsobj option \<Rightarrow> ConfigurationArgument option \<Rightarrow> error + ObjectContainer" where
  "newObjectContainer d configuration =
     (let cfg =
        (case configuration of
           None \<Rightarrow> defaultConfig
         | Some a \<Rightarrow>
             (let cfg1 = (if truthy (keysFlag a)
                          then defaultConfig\<lparr>convertAllKeysToLowerCase := True\<rparr>
                          else defaultConfig)
              in if truthy (valuesFlag a)
                 then cfg1\<lparr>convertAllValuesToLowerCase := True\<rparr>
                 else cfg1))
      in prepareData
           (case d of
              None \<Rightarrow> \<lparr>data = emptyObject (Fresh 1), config = cfg, created = 2\<rparr>
            | Some obj \<Rightarrow> \<lparr>data = obj, config = cfg, created = 1\<rparr>))"

text \<open>
  \<^verbatim>\<open>has(key, value?)\<close>; the call \<^verbatim>\<open>has(key)\<close> is the one whose \<open>v\<close> is \<open>Undefined\<close>.
\<close>

definition has :: "ObjectContainer \<Rightarrow> string \<Rightarrow> jsval \<Rightarrow> bool" where
  "has c key v =
     (let key' = convertKey c key; v' = convertValue c v
      in if v' \<noteq> Undefined
         then (if getProp (data c) key' = Val Undefined then False
               else strictEq (getProp (data c) key') (Val v'))
         else getProp (data c) key' \<noteq> Val Undefined)"

text \<open>
  \<^verbatim>\<open>get(key, _default = null)\<close>. The second argument is \<open>None\<close> when the call leaves it
  out. The parameter's initialiser gives \<^verbatim>\<open>_default\<close> the value \<^verbatim>\<open>null\<close> when the argument
  is left out or is \<^verbatim>\<open>undefined\<close>, and \<^verbatim>\<open>??\<close> takes \<^verbatim>\<open>_default\<close> when the read yields
  \<^verbatim>\<open>undefined\<close> or \<^verbatim>\<open>null\<close>.
\<close>

definition get :: "ObjectContainer \<Rightarrow> string \<Rightarrow> jsread option \<Rightarrow> jsread" where
  "get c key arg =
     (let dflt = (case arg of
                    None \<Rightarrow> Val Null
                  | Some d \<Rightarrow> if d = Val Undefined then Val Null else d);
          key' = convertKey c key;
          r = getProp (data c) key'
      in if r = Val Undefined \<or> r = Val Null then dflt else r)"

text \<open>
  \<^verbatim>\<open>put\<close> returns \<^verbatim>\<open>this\<close>: the result is the container after the call, or the error the
  assignment throws.
\<close>

definition put :: "ObjectContainer \<Rightarrow> string \<Rightarrow> jsval \<Rightarrow> error + ObjectContainer" where
  "put c key v =
     (case setProp (data c) (convertKey c key) (convertValue c v) of
        Inl e \<Rightarrow> Inl e
      | Inr d \<Rightarrow> Inr (c\<lparr>data := d\<rparr>))"

text \<open>
  \<^verbatim>\<open>putIfNotExists\<close> returns a boolean and changes the container; it converts the key
  and the value itself and then calls \<^verbatim>\<open>put\<close>, which converts them again.
\<close>

definition putIfNotExists ::
  "ObjectContainer \<Rightarrow> string \<Rightarrow> jsval \<Rightarrow> error + bool \<times> ObjectContainer" where
  "putIfNotExists c key v =
     (if has c key Undefined then Inr (False, c)
      else (case put c (convertKey c key) (convertValue c v) of
              Inl e \<Rightarrow> Inl e
            | Inr c' \<Rightarrow> Inr (True, c')))"

definition forget :: "ObjectContainer \<Rightarrow> string \<Rightarrow> error + ObjectContainer" where
  "forget c key =
     (if \<not> has c key Undefined then Inr c
      else (case deleteProp (data c) (convertKey c key) of
              Inl e \<Rightarrow> Inl e
            | Inr d \<Rightarrow> Inr (c\<lparr>data := d\<rparr>)))"

definition remove' :: "ObjectContainer \<Rightarrow> string \<Rightarrow> error + ObjectContainer" where
  "remove' c key = forget c key"

definition clear :: "ObjectContainer \<Rightarrow> ObjectContainer" where
  "clear c = c\<lparr>data := emptyObject (Fresh (created c)), created := created c + 1\<rparr>"

definition items :: "ObjectContainer \<Rightarrow> jsobj" where
  "items c = data c"

definition all' :: "ObjectContainer \<Rightarrow> jsobj" where
  "all' c = items c"

definition keys' :: "ObjectContainer \<Rightarrow> string list" where
  "keys' c = ownKeys (data c)"

definition values' :: "ObjectContainer \<Rightarrow> jsval list" where
  "values' c = ownValues (data c)"

definition empty' :: "ObjectContainer \<Rightarrow> bool" where
  "empty' c = (length (keys' c) = 0)"

text \<open>
  \<^verbatim>\<open>populate(values)\<close> copies every key that \<^verbatim>\<open>for ... in\<close> visits in \<^verbatim>\<open>values\<close> into a new
  object \<^verbatim>\<open>{}\<close>; neither \<^verbatim>\<open>convertKey\<close> nor \<^verbatim>\<open>convertValue\<close> nor \<^verbatim>\<open>prepareData\<close> is called.
\<close>

fun populateLoop :: "jsobj \<Rightarrow> jsobj \<Rightarrow> string list \<Rightarrow> error + jsobj" where
  "populateLoop vals d [] = Inr d"
| "populateLoop vals d (key # ks) =
     (case setProp d key (readValue vals key) of
        Inl e \<Rightarrow> Inl e
      | Inr d' \<Rightarrow> populateLoop vals d' ks)"

definition populate :: "ObjectContainer \<Rightarrow> jsobj \<Rightarrow> error + ObjectContainer" where
  "populate c vals =
     (case populateLoop vals (emptyObject (Fresh (created c))) (forInKeys vals) of
        Inl e \<Rightarrow> Inl e
      | Inr d \<Rightarrow> Inr (c\<lparr>data := d, created := created c + 1\<rparr>))"

text \<open>Every key the store has as an own property is in lower case.\<close>

definition keysLowercase :: "ObjectContainer \<Rightarrow> bool" where
  "keysLowercase c = list_all (\<lambda>k. toLowerCase k = k) (map fst (props (data c)))"

text \<open>
  The store takes a write under a key: it has the key as a writable property, or it is
  extensible and no object of its prototype chain has the key as a property that is not
  writable. (This is said of keys whose assignment does not reach the setter of
  \<^verbatim>\<open>__proto__\<close>; a key for which \<^verbatim>\<open>has\<close> is false is one.)
\<close>

definition takesWrite :: "jsobj \<Rightarrow> string \<Rightarrow> bool" where
  "takesWrite obj key =
     (case findProp obj key of
        Own pr \<Rightarrow> writable pr
      | Inherited pr \<Rightarrow> writable pr \<and> extensible obj
      | Builtin n \<Rightarrow> extensible obj
      | Missing \<Rightarrow> extensible obj)"

subsection \<open>Sequences of calls\<close>

text \<open>
  A call of a public method with its arguments, and what it yields: the error it throws,
  or what it returns and the container after it. \<open>run\<close> makes the calls of a list one
  after the other until one throws; it yields what the calls have returned, the error
  if one was thrown, and the container at the end. A call that throws leaves the
  container as it found it: the assignment or the \<^verbatim>\<open>delete\<close> that throws changes nothing,
  and the loops of \<^verbatim>\<open>populate\<close> and \<^verbatim>\<open>prepareData\<close> write to an object that \<^verbatim>\<open>this.data\<close>
  is given only after them. \<open>session\<close> constructs a container and runs a list of calls
  on it; there is no container when the constructor throws.
\<close>

datatype operation =
    CallHas string jsval
  | CallGet string "jsread option"
  | CallPut string jsval
  | CallPutIfNotExists string jsval
  | CallForget string
  | CallRemove string
  | CallClear
  | CallItems
  | CallAll
  | CallKeys
  | CallValues
  | CallEmpty
  | CallConvertKey string
  | CallConvertValue jsval
  | CallPopulate jsobj
  | CallPrepareData

datatype returned =
    RetBool bool
  | RetRead jsread
  | RetValue jsval
  | RetString string
  | RetObject jsobj
  | RetKeys "string list"
  | RetValues "jsval list"
  | RetThis
  | RetVoid

fun call :: "ObjectContainer \<Rightarrow> operation \<Rightarrow> error + returned \<times> ObjectContainer" where
  "call c (CallHas k v) = Inr (RetBool (has c k v), c)"
| "call c (CallGet k d) = Inr (RetRead (get c k d), c)"
| "call c (CallPut k v) =
     (case put c k v of Inl e \<Rightarrow> Inl e | Inr c' \<Rightarrow> Inr (RetThis, c'))"
| "call c (CallPutIfNotExists k v) =
     (case putIfNotExists c k v of Inl e \<Rightarrow> Inl e | Inr r \<Rightarrow> Inr (RetBool (fst r), snd r))"
| "call c (CallForget k) =
     (case forget c k of Inl e \<Rightarrow> Inl e | Inr c' \<Rightarrow> Inr (RetThis, c'))"
| "call c (CallRemove k) =
     (case remove' c k of Inl e \<Rightarrow> Inl e | Inr c' \<Rightarrow> Inr (RetThis, c'))"
| "call c CallClear = Inr (RetVoid, clear c)"
| "call c CallItems = Inr (RetObject (items c), c)"
| "call c CallAll = Inr (RetObject (all' c), c)"
| "call c CallKeys = Inr (RetKeys (keys' c), c)"
| "call c CallValues = Inr (RetValues (values' c), c)"
| "call c CallEmpty = Inr (RetBool (empty' c), c)"
| "call c (CallConvertKey k) = Inr (RetString (convertKey c k), c)"
| "call c (CallConvertValue v) = Inr (RetValue (convertValue c v), c)"
| "call c (CallPopulate m) =
     (case populate c m of Inl e \<Rightarrow> Inl e | Inr c' \<Rightarrow> Inr (RetThis, c'))"
| "call c CallPrepareData =
     (case prepareData c of Inl e \<Rightarrow> Inl e | Inr c' \<Rightarrow> Inr (RetVoid, c'))"

fun run ::
  "ObjectContainer \<Rightarrow> operation list \<Rightarrow> returned list \<times> error option \<times> ObjectContainer" where
  "run c [] = ([], None, c)"
| "run c (x # xs) =
     (case call c x of
        Inl e \<Rightarrow> ([], Some e, c)
      | Inr r \<Rightarrow>
          (fst r # fst (run (snd r) xs), fst (snd (run (snd r) xs)), snd (snd (run (snd r) xs))))"

definition session ::
  "jsobj option \<Rightarrow> ConfigurationArgument option \<Rightarrow> operation list
     \<Rightarrow> returned list \<times> error option \<times> ObjectContainer option" where
  "session d configuration xs =
     (case newObjectContainer d configuration of
        Inl e \<Rightarrow> ([], Some e, None)
      | Inr c \<Rightarrow> (fst (run c xs), fst (snd (run c xs)), Some (snd (snd (run c xs)))))"

section \<open>Strings\<close>

lemma lowerChar_idem: "lowerChar (lowerChar c) = lowerChar c"
proof (cases "isUpperCode (of_char c)")
  case True
  let ?n = "of_char c :: nat"
  from True have lt: "?n + 32 < 256"
    by (auto simp: isUpperCode_def)
  then have oc: "(of_char (char_of (?n + 32)) :: nat) = ?n + 32"
    by simp
  from True have "\<not> isUpperCode (?n + 32)"
    by (auto simp: isUpperCode_def)
  then have "lowerChar (char_of (?n + 32)) = char_of (?n + 32)"
    unfolding lowerChar_def oc by simp
  with True show ?thesis
    by (simp add: lowerChar_def)
next
  case False
  then show ?thesis
    by (simp add: lowerChar_def)
qed

lemma toLowerCase_idem: "toLowerCase (toLowerCase s) = toLowerCase s"
  by (simp add: toLowerCase_def lowerChar_idem)

section \<open>Conversions are idempotent; reads after writes\<close>

lemma convertKey_idem: "convertKey c (convertKey c key) = convertKey c key"
  by (simp add: convertKey_def toLowerCase_idem)

lemma convertValue_idem: "convertValue c (convertValue c v) = convertValue c v"
  by (cases v) (simp_all add: convertValue_def toLowerCase_idem)


lemma keys_insertProp: "fst ` set (insertProp k v ps) = insert k (fst ` set ps)"
  by (induction ps) auto

lemma map_of_insertProp:
  "k \<notin> fst ` set ps \<Longrightarrow> map_of (insertProp k v ps) = (map_of ps)(k \<mapsto> v)"
proof (induction ps)
  case Nil
  then show ?case by simp
next
  case (Cons p ps)
  then have "k \<noteq> fst p" and "k \<notin> fst ` set ps"
    by auto
  with Cons.IH show ?case
    by (cases p) (auto simp: fun_upd_twist)
qed

lemma map_of_overwrite:
  "map_of (overwrite key v ps) k =
     (if k = key
      then map_option (\<lambda>q. Prop v (writable q) (enumerable q) (configurable q)) (map_of ps key)
      else map_of ps k)"
  by (induction ps) (auto simp: overwrite_def)

lemma keys_overwrite: "fst ` set (overwrite key v ps) = fst ` set ps"
  by (induction ps) (auto simp: overwrite_def)


lemma inheritedProp_Builtin: "inheritedProp p key = Builtin n \<Longrightarrow> n = key"
  by (induction p key rule: inheritedProp.induct) (auto split: if_splits option.splits)

lemma findProp_Builtin: "findProp obj key = Builtin n \<Longrightarrow> n = key"
  by (auto simp: findProp_def inheritedProp_Builtin split: option.splits)

lemma findProp_Own_iff: "(findProp obj key = Own pr) = (map_of (props obj) key = Some pr)"
proof -
  have "inheritedProp p key \<noteq> Own pr" for p
    by (induction p key rule: inheritedProp.induct) (auto split: option.splits)
  then show ?thesis
    by (auto simp: findProp_def split: option.splits)
qed

lemma findProp_not_own:
  "findProp obj key = Inherited pr \<or> findProp obj key = Builtin n \<or> findProp obj key = Missing
   \<Longrightarrow> key \<notin> fst ` set (props obj)"
  by (auto simp: findProp_def map_of_eq_None_iff [symmetric] split: option.splits)

lemma getProp_own: "map_of (props obj) key = Some pr \<Longrightarrow> getProp obj key = Val (propValue pr)"
  by (simp add: getProp_def findProp_def)

lemma getProp_Missing: "findProp obj key = Missing \<Longrightarrow> getProp obj key = Val Undefined"
  by (simp add: getProp_def)


lemma has_absent_iff:
  "has c key Undefined = (getProp (data c) (convertKey c key) \<noteq> Val Undefined)"
  by (simp add: has_def convertValue_def)

lemma createProp_stores:
  assumes "key \<notin> fst ` set (props obj)" and "createProp obj key v = Inr d"
  shows "(\<exists>pr. map_of (props d) key = Some pr \<and> propValue pr = v \<and> writable pr)
      \<and> (\<forall>k. k \<noteq> key \<longrightarrow> map_of (props d) k = map_of (props obj) k)
      \<and> proto d = proto obj \<and> extensible d = extensible obj \<and> ident d = ident obj
      \<and> fst ` set (props d) = insert key (fst ` set (props obj))"
proof -
  from assms(2)
  have "d = JSObj (ident obj) (insertProp key (dataProp v) (props obj)) (proto obj)
      (extensible obj)"
    by (simp add: createProp_def split: if_splits)
  with assms(1) show ?thesis
    by (simp add: map_of_insertProp keys_insertProp dataProp_def)
qed

text \<open>
  A write that returns, under a key that does not reach the setter of \<^verbatim>\<open>__proto__\<close>,
  leaves the value in an own property and changes nothing else of the object but its
  properties.
\<close>

lemma setProp_stores:
  assumes "findProp obj key \<noteq> Builtin ''__proto__''" and "setProp obj key v = Inr d"
  shows "(\<exists>pr. map_of (props d) key = Some pr \<and> propValue pr = v \<and> writable pr)
      \<and> (\<forall>k. k \<noteq> key \<longrightarrow> map_of (props d) k = map_of (props obj) k)
      \<and> proto d = proto obj \<and> extensible d = extensible obj \<and> ident d = ident obj
      \<and> fst ` set (props d) = insert key (fst ` set (props obj))"
proof (cases "findProp obj key")
  case (Own pr)
  then have own: "map_of (props obj) key = Some pr"
    by (simp add: findProp_Own_iff)
  then have "key \<in> fst ` set (props obj)"
    by (force dest: map_of_SomeD)
  moreover from Own assms(2)
  have "d = JSObj (ident obj) (overwrite key v (props obj)) (proto obj) (extensible obj)"
    by (simp add: setProp_def split: if_splits)
  moreover from Own assms(2) have "writable pr"
    by (simp add: setProp_def split: if_splits)
  ultimately show ?thesis
    using own by (simp add: map_of_overwrite keys_overwrite insert_absorb)
next
  case (Inherited pr)
  then have "key \<notin> fst ` set (props obj)"
    using findProp_not_own by blast
  moreover from Inherited assms(2) have "createProp obj key v = Inr d"
    by (simp add: setProp_def split: if_splits)
  ultimately show ?thesis
    by (rule createProp_stores)
next
  case (Builtin n)
  then have "key \<notin> fst ` set (props obj)"
    using findProp_not_own by blast
  moreover from Builtin assms have "createProp obj key v = Inr d"
    by (simp add: setProp_def split: if_splits)
  ultimately show ?thesis
    by (rule createProp_stores)
next
  case Missing
  then have "key \<notin> fst ` set (props obj)"
    using findProp_not_own by blast
  moreover from Missing assms(2) have "createProp obj key v = Inr d"
    by (simp add: setProp_def)
  ultimately show ?thesis
    by (rule createProp_stores)
qed

lemma setProp_returns:
  assumes "takesWrite obj key" and "findProp obj key \<noteq> Builtin ''__proto__''"
  shows "\<exists>d. setProp obj key v = Inr d"
  using assms
  by (cases "findProp obj key")
     (auto simp: takesWrite_def setProp_def createProp_def)


lemma setProp_keys:
  assumes "setProp obj key v = Inr d"
  shows "fst ` set (props d) \<subseteq> insert key (fst ` set (props obj))"
proof (cases "findProp obj key = Builtin ''__proto__''")
  case True
  with assms have "props d = props obj"
    by (auto simp: setProp_def protoSetter_def setPrototype_def split: jsval.splits if_splits)
  then show ?thesis by auto
next
  case False
  from setProp_stores [OF False assms] show ?thesis by simp
qed

lemma not_proto_key: "key \<noteq> ''__proto__'' \<Longrightarrow> findProp obj key \<noteq> Builtin ''__proto__''"
  using findProp_Builtin by blast

lemma put_converted: "put c (convertKey c k) (convertValue c v) = put c k v"
  by (simp add: put_def convertKey_idem convertValue_idem)

lemma put_Missing:
  assumes "findProp (data c) (convertKey c k) = Missing"
  shows "put c k v =
     (if extensible (data c)
      then Inr (c\<lparr>data := JSObj (ident (data c))
                  (insertProp (convertKey c k) (dataProp (convertValue c v)) (props (data c)))
                  (proto (data c)) (extensible (data c))\<rparr>)
      else Inl TypeError)"
  using assms by (simp add: put_def setProp_def createProp_def)

section \<open>Reading with a normalised key\<close>

text \<open>
  Claim C4. In a container that converts keys to lower case, \<^verbatim>\<open>has(k)\<close> equals
  \<^verbatim>\<open>has(k.toLowerCase())\<close>, with or without a value to compare, \<^verbatim>\<open>get(k)\<close> equals
  \<^verbatim>\<open>get(k.toLowerCase())\<close> for every default, and both keys read the same property of
  the store: the query key is converted on every read, and converting a key that is in
  lower case already changes nothing.
\<close>

theorem has_get_normalise_query_key:
  assumes "convertAllKeysToLowerCase (config c)"
  shows "has c k Undefined = has c (toLowerCase k) Undefined
       \<and> has c k v = has c (toLowerCase k) v
       \<and> get c k dflt = get c (toLowerCase k) dflt
       \<and> getProp (data c) (convertKey c k) = getProp (data c) (convertKey c (toLowerCase k))"
proof -
  from assms have "convertKey c (toLowerCase k) = convertKey c k"
    by (simp add: convertKey_def toLowerCase_idem)
  then show ?thesis
    by (simp add: has_def get_def)
qed

text \<open>
  The container \<^verbatim>\<open>new ObjectContainer({Foo: "Bar"}, {convertAllKeysToLowerCase: true})\<close>
  is asked for \<^verbatim>\<open>FOO\<close> and for \<^verbatim>\<open>foo\<close>.
\<close>

theorem has_get_normalise_query_key_witness:
  "newObjectContainer (Some (objectLiteral (Caller 0) [(''Foo'', Str ''Bar'')]))
       (Some \<lparr>keysFlag = Some True, valuesFlag = None\<rparr>)
     = Inr \<lparr>data = objectLiteral (Fresh 1) [(''foo'', Str ''Bar'')],
            config = \<lparr>convertAllKeysToLowerCase = True, convertAllValuesToLowerCase = False\<rparr>,
            created = 2\<rparr>
   \<and> has \<lparr>data = objectLiteral (Fresh 1) [(''foo'', Str ''Bar'')],
          config = \<lparr>convertAllKeysToLowerCase = True, convertAllValuesToLowerCase = False\<rparr>,
          created = 2\<rparr> ''FOO'' Undefined
   \<and> has \<lparr>data = objectLiteral (Fresh 1) [(''foo'', Str ''Bar'')],
          config = \<lparr>convertAllKeysToLowerCase = True, convertAllValuesToLowerCase = False\<rparr>,
          created = 2\<rparr> (toLowerCase ''FOO'') Undefined
   \<and> get \<lparr>data = objectLiteral (Fresh 1) [(''foo'', Str ''Bar'')],
          config = \<lparr>convertAllKeysToLowerCase = True, convertAllValuesToLowerCase = False\<rparr>,
          created = 2\<rparr> (toLowerCase ''FOO'') None
       = Val (Str ''Bar'')"
proof -
  let ?c = "\<lparr>data = objectLiteral (Fresh 1) [(''foo'', Str ''Bar'')],
          config = \<lparr>convertAllKeysToLowerCase = True, convertAllValuesToLowerCase = False\<rparr>,
          created = 2\<rparr>"
  have new: "newObjectContainer (Some (objectLiteral (Caller 0) [(''Foo'', Str ''Bar'')]))
       (Some \<lparr>keysFlag = Some True, valuesFlag = None\<rparr>) = Inr ?c"
    by code_simp
  have flag: "convertAllKeysToLowerCase (config ?c)"
    by simp
  have h: "has ?c ''FOO'' Undefined"
    by code_simp
  have g: "get ?c ''FOO'' None = Val (Str ''Bar'')"
    by code_simp
  from has_get_normalise_query_key [OF flag, of "''FOO''" Undefined None] new h g
  show ?thesis
    by simp
qed

section \<open>Forgetting a key that is absent\<close>

text \<open>
  Claim C6. When \<^verbatim>\<open>has(k)\<close> is false, \<^verbatim>\<open>forget(k)\<close> (and \<^verbatim>\<open>remove(k)\<close>, which calls it)
  throws nothing and returns the container as it was: the call returns before the
  \<^verbatim>\<open>delete\<close>, the one step of \<^verbatim>\<open>forget\<close> that can throw.
\<close>

theorem forget_absent_key:
  assumes "\<not> has c k Undefined"
  shows "forget c k = Inr c \<and> remove' c k = Inr c"
  using assms by (simp add: forget_def remove'_def)

text \<open>\<^verbatim>\<open>new ObjectContainer({a: 1}).forget("missing")\<close>.\<close>

theorem forget_absent_key_witness:
  "newObjectContainer (Some (objectLiteral (Caller 0) [(''a'', Num 1)])) None
     = Inr \<lparr>data = objectLiteral (Caller 0) [(''a'', Num 1)], config = defaultConfig, created = 1\<rparr>
   \<and> \<not> has \<lparr>data = objectLiteral (Caller 0) [(''a'', Num 1)], config = defaultConfig,
            created = 1\<rparr> ''missing'' Undefined
   \<and> forget \<lparr>data = objectLiteral (Caller 0) [(''a'', Num 1)], config = defaultConfig,
            created = 1\<rparr> ''missing''
     = Inr \<lparr>data = objectLiteral (Caller 0) [(''a'', Num 1)], config = defaultConfig, created = 1\<rparr>"
proof -
  let ?c = "\<lparr>data = objectLiteral (Caller 0) [(''a'', Num 1)], config = defaultConfig, created = 1\<rparr>"
  have new: "newObjectContainer (Some (objectLiteral (Caller 0) [(''a'', Num 1)])) None = Inr ?c"
    by code_simp
  have absent: "\<not> has ?c ''missing'' Undefined"
    by code_simp
  from forget_absent_key [OF absent] absent new show ?thesis
    by simp
qed

section \<open>Reading a key that is stored with null, or not stored\<close>

text \<open>
  Claim C10, amended. When the value stored under the converted key is \<^verbatim>\<open>null\<close>,
  \<^verbatim>\<open>has(k)\<close> is true, and \<^verbatim>\<open>get(k, d)\<close> returns \<open>d\<close> for every \<open>d\<close> other than \<^verbatim>\<open>undefined\<close>;
  \<^verbatim>\<open>get(k)\<close> and \<^verbatim>\<open>get(k, undefined)\<close> return \<^verbatim>\<open>null\<close>, the value the parameter's
  initialiser puts in place of \<^verbatim>\<open>undefined\<close>. With every default, \<^verbatim>\<open>get\<close> returns for such
  a key what it returns, in this or any other container, for a key that is a property
  neither of the store nor of any object of its prototype chain: \<^verbatim>\<open>get\<close> cannot tell a
  stored \<^verbatim>\<open>null\<close> from a key that is absent in this sense.
\<close>

theorem get_stored_null:
  assumes "map_of (props (data c)) (convertKey c k) = Some pr" and "propValue pr = Null"
  shows "has c k Undefined
       \<and> (d \<noteq> Val Undefined \<longrightarrow> get c k (Some d) = d)
       \<and> get c k (Some (Val Undefined)) = Val Null
       \<and> get c k None = Val Null
       \<and> (findProp (data c2) (convertKey c2 k2) = Missing \<longrightarrow> get c2 k2 arg = get c k arg)"
proof -
  from assms have "getProp (data c) (convertKey c k) = Val Null"
    by (simp add: getProp_own)
  then show ?thesis
    by (auto simp: has_absent_iff get_def getProp_Missing)
qed

text \<open>
  \<^verbatim>\<open>new ObjectContainer({a: null})\<close>, the default \<^verbatim>\<open>7\<close>, and the absent key \<^verbatim>\<open>b\<close> of the
  same container.
\<close>

theorem get_stored_null_witness:
  "newObjectContainer (Some (objectLiteral (Caller 0) [(''a'', Null)])) None
     = Inr \<lparr>data = objectLiteral (Caller 0) [(''a'', Null)], config = defaultConfig, created = 1\<rparr>
   \<and> map_of (props (objectLiteral (Caller 0) [(''a'', Null)])) ''a'' = Some (dataProp Null)
   \<and> propValue (dataProp Null) = Null
   \<and> has \<lparr>data = objectLiteral (Caller 0) [(''a'', Null)], config = defaultConfig, created = 1\<rparr>
        ''a'' Undefined
   \<and> get \<lparr>data = objectLiteral (Caller 0) [(''a'', Null)], config = defaultConfig, created = 1\<rparr>
        ''a'' (Some (Val (Num 7))) = Val (Num 7)
   \<and> findProp (objectLiteral (Caller 0) [(''a'', Null)]) ''b'' = Missing
   \<and> get \<lparr>data = objectLiteral (Caller 0) [(''a'', Null)], config = defaultConfig, created = 1\<rparr>
        ''b'' (Some (Val (Num 7)))
     = get \<lparr>data = objectLiteral (Caller 0) [(''a'', Null)], config = defaultConfig, created = 1\<rparr>
        ''a'' (Some (Val (Num 7)))"
proof -
  let ?c = "\<lparr>data = objectLiteral (Caller 0) [(''a'', Null)], config = defaultConfig, created = 1\<rparr>"
  have new: "newObjectContainer (Some (objectLiteral (Caller 0) [(''a'', Null)])) None = Inr ?c"
    by code_simp
  have stored: "map_of (props (data ?c)) (convertKey ?c ''a'') = Some (dataProp Null)"
    by code_simp
  have stored': "map_of (props (objectLiteral (Caller 0) [(''a'', Null)])) ''a'' = Some (dataProp Null)"
    by code_simp
  have null: "propValue (dataProp Null) = Null"
    by (simp add: dataProp_def)
  have absent: "findProp (data ?c) (convertKey ?c ''b'') = Missing"
    by code_simp
  have absent': "findProp (objectLiteral (Caller 0) [(''a'', Null)]) ''b'' = Missing"
    by code_simp
  from get_stored_null [OF stored null, where d = "Val (Num 7)" and ?c2.0 = ?c and ?k2.0 = "''b''"
      and arg = "Some (Val (Num 7))"] absent
  have "has ?c ''a'' Undefined
      \<and> get ?c ''a'' (Some (Val (Num 7))) = Val (Num 7)
      \<and> get ?c ''b'' (Some (Val (Num 7))) = get ?c ''a'' (Some (Val (Num 7)))"
    by simp
  with new stored' null absent' show ?thesis
    by blast
qed

text \<open>
  The claim as it stands fails for the default \<^verbatim>\<open>undefined\<close>:
  \<^verbatim>\<open>new ObjectContainer({a: null}).get("a", undefined)\<close> is \<^verbatim>\<open>null\<close>, not the default passed.
\<close>

theorem get_stored_null_counterexample:
  "newObjectContainer (Some (objectLiteral (Caller 0) [(''a'', Null)])) None
     = Inr \<lparr>data = objectLiteral (Caller 0) [(''a'', Null)], config = defaultConfig, created = 1\<rparr>
   \<and> map_of (props (objectLiteral (Caller 0) [(''a'', Null)])) ''a'' = Some (dataProp Null)
   \<and> get \<lparr>data = objectLiteral (Caller 0) [(''a'', Null)], config = defaultConfig, created = 1\<rparr>
        ''a'' (Some (Val Undefined)) \<noteq> Val Undefined"
  by code_simp

text \<open>
  Claim C7, amended. Let the converted key be a property neither of the store nor of any
  object of its prototype chain, \<^verbatim>\<open>Object.prototype\<close> at its end included. Then \<^verbatim>\<open>has(k)\<close>
  is false, with or without a value to compare; \<^verbatim>\<open>get(k)\<close> is \<^verbatim>\<open>null\<close>; \<^verbatim>\<open>get(k, d)\<close> is
  \<open>d\<close> for every \<open>d\<close> other than \<^verbatim>\<open>undefined\<close> and \<^verbatim>\<open>null\<close> for \<^verbatim>\<open>undefined\<close>; \<^verbatim>\<open>forget(k)\<close>
  and \<^verbatim>\<open>remove(k)\<close> throw nothing and return the container as it was. \<^verbatim>\<open>put(k, v)\<close> and
  \<^verbatim>\<open>putIfNotExists(k, v)\<close> return, the second with true, when the store is extensible,
  and throw \<^verbatim>\<open>TypeError\<close> when it is not.
\<close>

theorem missing_key:
  assumes "findProp (data c) (convertKey c k) = Missing"
  shows "has c k Undefined = False
       \<and> has c k v = False
       \<and> get c k None = Val Null
       \<and> (d \<noteq> Val Undefined \<longrightarrow> get c k (Some d) = d)
       \<and> get c k (Some (Val Undefined)) = Val Null
       \<and> forget c k = Inr c
       \<and> remove' c k = Inr c
       \<and> (extensible (data c) \<longrightarrow>
            (\<exists>c'. put c k v = Inr c' \<and> putIfNotExists c k v = Inr (True, c')))
       \<and> (\<not> extensible (data c) \<longrightarrow>
            put c k v = Inl TypeError \<and> putIfNotExists c k v = Inl TypeError)"
proof -
  from assms have r: "getProp (data c) (convertKey c k) = Val Undefined"
    by (rule getProp_Missing)
  then have absent: "\<not> has c k Undefined"
    by (simp add: has_absent_iff)
  with r have reads: "has c k Undefined = False \<and> has c k v = False
       \<and> get c k None = Val Null
       \<and> (d \<noteq> Val Undefined \<longrightarrow> get c k (Some d) = d)
       \<and> get c k (Some (Val Undefined)) = Val Null
       \<and> forget c k = Inr c \<and> remove' c k = Inr c"
    by (simp add: has_def get_def forget_def remove'_def)
  from absent have "putIfNotExists c k v =
      (case put c k v of Inl e \<Rightarrow> Inl e | Inr c' \<Rightarrow> Inr (True, c'))"
    by (simp add: putIfNotExists_def put_converted)
  with put_Missing [OF assms, of v]
  have writes: "(extensible (data c) \<longrightarrow>
            (\<exists>c'. put c k v = Inr c' \<and> putIfNotExists c k v = Inr (True, c')))
       \<and> (\<not> extensible (data c) \<longrightarrow>
            put c k v = Inl TypeError \<and> putIfNotExists c k v = Inl TypeError)"
    by simp
  from reads writes show ?thesis
    by simp
qed

text \<open>
  \<^verbatim>\<open>new ObjectContainer({a: 1})\<close>, the key \<^verbatim>\<open>missing\<close> and the default \<^verbatim>\<open>"d"\<close>; and
  \<^verbatim>\<open>new ObjectContainer(Object.freeze({}))\<close>, whose store is not extensible.
\<close>

theorem missing_key_witness:
  "newObjectContainer (Some (objectLiteral (Caller 0) [(''a'', Num 1)])) None
     = Inr \<lparr>data = objectLiteral (Caller 0) [(''a'', Num 1)], config = defaultConfig, created = 1\<rparr>
   \<and> findProp (objectLiteral (Caller 0) [(''a'', Num 1)]) ''missing'' = Missing
   \<and> has \<lparr>data = objectLiteral (Caller 0) [(''a'', Num 1)], config = defaultConfig, created = 1\<rparr>
        ''missing'' Undefined = False
   \<and> get \<lparr>data = objectLiteral (Caller 0) [(''a'', Num 1)], config = defaultConfig, created = 1\<rparr>
        ''missing'' None = Val Null
   \<and> get \<lparr>data = objectLiteral (Caller 0) [(''a'', Num 1)], config = defaultConfig, created = 1\<rparr>
        ''missing'' (Some (Val (Str ''d''))) = Val (Str ''d'')
   \<and> putIfNotExists \<lparr>data = objectLiteral (Caller 0) [(''a'', Num 1)], config = defaultConfig,
          created = 1\<rparr> ''missing'' (Num 2)
     = Inr (True, \<lparr>data = objectLiteral (Caller 0) [(''a'', Num 1), (''missing'', Num 2)],
                   config = defaultConfig, created = 1\<rparr>)
   \<and> newObjectContainer (Some (JSObj (Caller 0) [] ObjectPrototype False)) None
     = Inr \<lparr>data = JSObj (Caller 0) [] ObjectPrototype False, config = defaultConfig,
          created = 1\<rparr>
   \<and> findProp (JSObj (Caller 0) [] ObjectPrototype False) ''missing'' = Missing
   \<and> put \<lparr>data = JSObj (Caller 0) [] ObjectPrototype False, config = defaultConfig, created = 1\<rparr>
        ''missing'' (Num 2) = Inl TypeError"
proof -
  let ?c = "\<lparr>data = objectLiteral (Caller 0) [(''a'', Num 1)], config = defaultConfig, created = 1\<rparr>"
  let ?f = "\<lparr>data = JSObj (Caller 0) [] ObjectPrototype False, config = defaultConfig, created = 1\<rparr>"
  have new: "newObjectContainer (Some (objectLiteral (Caller 0) [(''a'', Num 1)])) None = Inr ?c"
    by code_simp
  have missing: "findProp (data ?c) (convertKey ?c ''missing'') = Missing"
    by code_simp
  have missing': "findProp (objectLiteral (Caller 0) [(''a'', Num 1)]) ''missing'' = Missing"
    by code_simp
  have ext: "extensible (data ?c)"
    by code_simp
  have p: "putIfNotExists ?c ''missing'' (Num 2)
     = Inr (True, \<lparr>data = objectLiteral (Caller 0) [(''a'', Num 1), (''missing'', Num 2)],
                   config = defaultConfig, created = 1\<rparr>)"
    by code_simp
  from missing_key [OF missing, where v = "Num 2" and d = "Val (Str ''d'')"]
  have reads: "has ?c ''missing'' Undefined = False \<and> get ?c ''missing'' None = Val Null
      \<and> get ?c ''missing'' (Some (Val (Str ''d''))) = Val (Str ''d'')"
    by simp
  have new': "newObjectContainer (Some (JSObj (Caller 0) [] ObjectPrototype False)) None = Inr ?f"
    by code_simp
  have fmissing: "findProp (data ?f) (convertKey ?f ''missing'') = Missing"
    by code_simp
  have fmissing': "findProp (JSObj (Caller 0) [] ObjectPrototype False) ''missing'' = Missing"
    by code_simp
  have sealed: "\<not> extensible (data ?f)"
    by simp
  from missing_key [OF fmissing, where v = "Num 2"] sealed
  have thrown: "put ?f ''missing'' (Num 2) = Inl TypeError"
    by blast
  from new missing' reads p new' fmissing' thrown show ?thesis
    by blast
qed

text \<open>
  The claim as it stands fails in three ways. \<^verbatim>\<open>get("missing", undefined)\<close> returns
  \<^verbatim>\<open>null\<close> and not the default passed. A container that stores nothing answers
  \<^verbatim>\<open>has("toString")\<close> with true and \<^verbatim>\<open>get("constructor")\<close> with a built-in object: the
  store is an object literal, and a read of a key it does not have goes on to
  \<^verbatim>\<open>Object.prototype\<close>. And on \<^verbatim>\<open>new ObjectContainer(Object.freeze({}))\<close>, which keeps the
  caller's object as its store, \<^verbatim>\<open>putIfNotExists("missing", 1)\<close> throws \<^verbatim>\<open>TypeError\<close>.
\<close>

theorem missing_key_counterexample:
  "newObjectContainer None None
     = Inr \<lparr>data = emptyObject (Fresh 1), config = defaultConfig, created = 2\<rparr>
   \<and> keys' \<lparr>data = emptyObject (Fresh 1), config = defaultConfig, created = 2\<rparr> = []
   \<and> get \<lparr>data = emptyObject (Fresh 1), config = defaultConfig, created = 2\<rparr>
        ''missing'' (Some (Val Undefined)) \<noteq> Val Undefined
   \<and> has \<lparr>data = emptyObject (Fresh 1), config = defaultConfig, created = 2\<rparr>
        ''toString'' Undefined = True
   \<and> get \<lparr>data = emptyObject (Fresh 1), config = defaultConfig, created = 2\<rparr>
        ''constructor'' None \<noteq> Val Null
   \<and> newObjectContainer (Some (JSObj (Caller 0) [] ObjectPrototype False)) None
     = Inr \<lparr>data = JSObj (Caller 0) [] ObjectPrototype False, config = defaultConfig, created = 1\<rparr>
   \<and> putIfNotExists \<lparr>data = JSObj (Caller 0) [] ObjectPrototype False, config = defaultConfig,
          created = 1\<rparr> ''missing'' (Num 1) = Inl TypeError"
  by code_simp

section \<open>putIfNotExists, twice\<close>






section \<open>No configuration, unset flags and false flags\<close>

lemma config_call: "call c x = Inr r \<Longrightarrow> config (snd r) = config c"
  by (cases x)
     (auto simp: put_def putIfNotExists_def forget_def remove'_def clear_def
        populate_def prepareData_def split: sum.splits if_splits)

lemma config_run: "config (snd (snd (run c xs))) = config c"
  by (induction xs arbitrary: c) (auto simp: config_call split: sum.splits)

lemma newObjectContainer_flags:
  assumes "truthy kf = truthy kf'" and "truthy vf = truthy vf'"
  shows "newObjectContainer d (Some \<lparr>keysFlag = kf, valuesFlag = vf\<rparr>)
       = newObjectContainer d (Some \<lparr>keysFlag = kf', valuesFlag = vf'\<rparr>)"
  using assms by (simp add: newObjectContainer_def)

lemma newObjectContainer_None:
  "newObjectContainer d None
     = newObjectContainer d (Some \<lparr>keysFlag = Some False, valuesFlag = Some False\<rparr>)"
  by (simp add: newObjectContainer_def truthy_def)

lemma session_flags:
  assumes "newObjectContainer d a = newObjectContainer d b"
  shows "session d a xs = session d b xs"
  using assms by (simp add: session_def)

text \<open>
  Claim C8. Whatever the other flag is, a flag that is unset and a flag that is false
  give the same container, and no configuration gives the container that two false
  flags give; so every sequence of calls returns the same results, throws the same
  error if it throws, and ends in the same container on both. With no configuration
  the constructor returns, with both flags false. And no sequence of calls, whether a
  call of it throws or not, changes the configuration of a container.
\<close>

theorem unset_or_false_flags:
  "newObjectContainer d (Some \<lparr>keysFlag = None, valuesFlag = vf\<rparr>)
     = newObjectContainer d (Some \<lparr>keysFlag = Some False, valuesFlag = vf\<rparr>)
   \<and> newObjectContainer d (Some \<lparr>keysFlag = kf, valuesFlag = None\<rparr>)
     = newObjectContainer d (Some \<lparr>keysFlag = kf, valuesFlag = Some False\<rparr>)
   \<and> newObjectContainer d None
     = newObjectContainer d (Some \<lparr>keysFlag = Some False, valuesFlag = Some False\<rparr>)
   \<and> session d (Some \<lparr>keysFlag = None, valuesFlag = vf\<rparr>) xs
     = session d (Some \<lparr>keysFlag = Some False, valuesFlag = vf\<rparr>) xs
   \<and> session d (Some \<lparr>keysFlag = kf, valuesFlag = None\<rparr>) xs
     = session d (Some \<lparr>keysFlag = kf, valuesFlag = Some False\<rparr>) xs
   \<and> session d None xs
     = session d (Some \<lparr>keysFlag = Some False, valuesFlag = Some False\<rparr>) xs
   \<and> newObjectContainer d None
     = Inr \<lparr>data = (case d of None \<Rightarrow> emptyObject (Fresh 1) | Some obj \<Rightarrow> obj),
            config = \<lparr>convertAllKeysToLowerCase = False, convertAllValuesToLowerCase = False\<rparr>,
            created = (case d of None \<Rightarrow> 2 | Some obj \<Rightarrow> 1)\<rparr>
   \<and> config (snd (snd (run c xs))) = config c"
proof -
  have k: "newObjectContainer d (Some \<lparr>keysFlag = None, valuesFlag = vf\<rparr>)
     = newObjectContainer d (Some \<lparr>keysFlag = Some False, valuesFlag = vf\<rparr>)"
    by (rule newObjectContainer_flags) (simp_all add: truthy_def)
  have v: "newObjectContainer d (Some \<lparr>keysFlag = kf, valuesFlag = None\<rparr>)
     = newObjectContainer d (Some \<lparr>keysFlag = kf, valuesFlag = Some False\<rparr>)"
    by (rule newObjectContainer_flags) (simp_all add: truthy_def)
  have n: "newObjectContainer d None
     = Inr \<lparr>data = (case d of None \<Rightarrow> emptyObject (Fresh 1) | Some obj \<Rightarrow> obj),
            config = \<lparr>convertAllKeysToLowerCase = False, convertAllValuesToLowerCase = False\<rparr>,
            created = (case d of None \<Rightarrow> 2 | Some obj \<Rightarrow> 1)\<rparr>"
    by (cases d) (simp_all add: newObjectContainer_def prepareData_def defaultConfig_def)
  from k v n newObjectContainer_None [of d] session_flags [OF k] session_flags [OF v]
    session_flags [OF newObjectContainer_None] config_run [of c xs]
  show ?thesis
    by simp
qed

text \<open>
  \<^verbatim>\<open>new ObjectContainer({Foo: "Bar"}, {convertAllKeysToLowerCase: true})\<close>, whose other
  flag is unset, against the same with \<^verbatim>\<open>convertAllValuesToLowerCase: false\<close>, on a
  sequence of four calls; and \<^verbatim>\<open>new ObjectContainer()\<close> against two false flags.
\<close>

theorem unset_or_false_flags_witness:
  "session (Some (objectLiteral (Caller 0) [(''Foo'', Str ''Bar'')]))
       (Some \<lparr>keysFlag = Some True, valuesFlag = None\<rparr>)
       [CallPut ''A'' (Str ''B''), CallHas ''a'' Undefined, CallGet ''FOO'' None, CallKeys]
     = session (Some (objectLiteral (Caller 0) [(''Foo'', Str ''Bar'')]))
       (Some \<lparr>keysFlag = Some True, valuesFlag = Some False\<rparr>)
       [CallPut ''A'' (Str ''B''), CallHas ''a'' Undefined, CallGet ''FOO'' None, CallKeys]
   \<and> fst (session (Some (objectLiteral (Caller 0) [(''Foo'', Str ''Bar'')]))
       (Some \<lparr>keysFlag = Some True, valuesFlag = Some False\<rparr>)
       [CallPut ''A'' (Str ''B''), CallHas ''a'' Undefined, CallGet ''FOO'' None, CallKeys])
     = [RetThis, RetBool True, RetRead (Val (Str ''Bar'')), RetKeys [''foo'', ''a'']]
   \<and> session None None [CallPut ''A'' (Str ''B''), CallKeys]
     = session None (Some \<lparr>keysFlag = Some False, valuesFlag = Some False\<rparr>)
         [CallPut ''A'' (Str ''B''), CallKeys]
   \<and> fst (session None None [CallPut ''A'' (Str ''B''), CallKeys]) = [RetThis, RetKeys [''A'']]"
proof -
  have r: "fst (session (Some (objectLiteral (Caller 0) [(''Foo'', Str ''Bar'')]))
       (Some \<lparr>keysFlag = Some True, valuesFlag = Some False\<rparr>)
       [CallPut ''A'' (Str ''B''), CallHas ''a'' Undefined, CallGet ''FOO'' None, CallKeys])
     = [RetThis, RetBool True, RetRead (Val (Str ''Bar'')), RetKeys [''foo'', ''a'']]"
    by code_simp
  have r': "fst (session None None [CallPut ''A'' (Str ''B''), CallKeys]) = [RetThis, RetKeys [''A'']]"
    by code_simp
  from unset_or_false_flags [where d = "Some (objectLiteral (Caller 0) [(''Foo'', Str ''Bar'')])"
      and kf = "Some True"
      and xs = "[CallPut ''A'' (Str ''B''), CallHas ''a'' Undefined, CallGet ''FOO'' None, CallKeys]"]
    unset_or_false_flags [where d = None and xs = "[CallPut ''A'' (Str ''B''), CallKeys]"]
    r r'
  show ?thesis
    by simp
qed

section \<open>The keys of the store and their case\<close>

lemma keysLowercase_iff:
  "keysLowercase c = (\<forall>k \<in> fst ` set (props (data c)). toLowerCase k = k)"
  by (auto simp: keysLowercase_def list_all_iff)

lemma fixed_on_subset:
  assumes "A \<subseteq> insert k B" and "f k = k" and "\<forall>x \<in> B. f x = x"
  shows "\<forall>x \<in> A. f x = x"
proof
  fix x
  assume "x \<in> A"
  with assms(1) have "x = k \<or> x \<in> B"
    by auto
  with assms(2,3) show "f x = x"
    by auto
qed

lemma prepareLoop_keys:
  assumes "convertAllKeysToLowerCase cfg"
    and "\<forall>k \<in> fst ` set (props new). toLowerCase k = k"
    and "prepareLoop cfg old new ks = Inr d"
  shows "\<forall>k \<in> fst ` set (props d). toLowerCase k = k"
  using assms(2,3)
proof (induction ks arbitrary: new)
  case Nil
  then show ?case by simp
next
  case (Cons key ks)
  from Cons.prems(2) obtain new' where
    step: "prepareEntry cfg old new key = Inr new'" and rest: "prepareLoop cfg old new' ks = Inr d"
    by (auto split: sum.splits)
  from step assms(1) obtain v where "setProp new (toLowerCase key) v = Inr new'"
    by (auto simp: prepareEntry_def Let_def)
  from setProp_keys [OF this] toLowerCase_idem [of key] Cons.prems(1)
  have "\<forall>k \<in> fst ` set (props new'). toLowerCase k = k"
    by (rule fixed_on_subset)
  from Cons.IH [OF this rest] show ?case .
qed

lemma keysLowercase_prepareData:
  assumes "convertAllKeysToLowerCase (config c)" and "prepareData c = Inr c'"
  shows "keysLowercase c'"
proof -
  from assms obtain d where
    loop: "prepareLoop (config c) (data c) (emptyObject (Fresh (created c))) (forInKeys (data c)) = Inr d"
    and c': "data c' = d"
    by (auto simp: prepareData_def split: sum.splits)
  have "\<forall>k \<in> fst ` set (props (emptyObject (Fresh (created c)))). toLowerCase k = k"
    by (simp add: emptyObject_def)
  from prepareLoop_keys [OF assms(1) this loop] c' show ?thesis
    by (simp add: keysLowercase_iff)
qed

text \<open>
  A container built with \<^verbatim>\<open>convertAllKeysToLowerCase\<close> stores lower-case keys only (the
  constructor calls \<^verbatim>\<open>prepareData\<close>), and \<^verbatim>\<open>put\<close>, \<^verbatim>\<open>putIfNotExists\<close>, \<^verbatim>\<open>forget\<close>,
  \<^verbatim>\<open>remove\<close> and \<^verbatim>\<open>clear\<close> keep it so.
\<close>

lemma keysLowercase_new:
  assumes "newObjectContainer d (Some \<lparr>keysFlag = Some True, valuesFlag = vf\<rparr>) = Inr c"
  shows "keysLowercase c"
proof -
  let ?c0 = "\<lparr>data = (case d of None \<Rightarrow> emptyObject (Fresh 1) | Some obj \<Rightarrow> obj),
             config = \<lparr>convertAllKeysToLowerCase = True,
                        convertAllValuesToLowerCase = truthy vf\<rparr>,
             created = (case d of None \<Rightarrow> 2 | Some obj \<Rightarrow> 1)\<rparr>"
  have "newObjectContainer d (Some \<lparr>keysFlag = Some True, valuesFlag = vf\<rparr>) = prepareData ?c0"
    by (cases d) (simp_all add: newObjectContainer_def truthy_def defaultConfig_def Let_def)
  with assms have "prepareData ?c0 = Inr c"
    by simp
  moreover have "convertAllKeysToLowerCase (config ?c0)"
    by simp
  ultimately show ?thesis
    by (rule keysLowercase_prepareData [rotated])
qed

lemma keysLowercase_put:
  assumes "convertAllKeysToLowerCase (config c)" and "keysLowercase c" and "put c k v = Inr c'"
  shows "keysLowercase c'"
proof -
  from assms(3) obtain d where
    d: "setProp (data c) (convertKey c k) (convertValue c v) = Inr d" and c': "data c' = d"
    by (auto simp: put_def split: sum.splits)
  from assms(1) have low: "toLowerCase (convertKey c k) = convertKey c k"
    by (simp add: convertKey_def toLowerCase_idem)
  from assms(2) have "\<forall>x \<in> fst ` set (props (data c)). toLowerCase x = x"
    by (simp only: keysLowercase_iff)
  from fixed_on_subset [OF setProp_keys [OF d] low this] c' show ?thesis
    by (simp only: keysLowercase_iff)
qed

lemma keysLowercase_kept:
  assumes "convertAllKeysToLowerCase (config c)" and "keysLowercase c"
  shows "putIfNotExists c k v = Inr r \<Longrightarrow> keysLowercase (snd r)"
    and "forget c k = Inr c' \<Longrightarrow> keysLowercase c'"
    and "remove' c k = Inr c' \<Longrightarrow> keysLowercase c'"
    and "keysLowercase (clear c)"
proof -
  show "keysLowercase (snd r)" if "putIfNotExists c k v = Inr r"
  proof (cases "has c k Undefined")
    case True
    with that assms(2) show ?thesis
      by (auto simp: putIfNotExists_def)
  next
    case False
    with that have "put c k v = Inr (snd r)"
      by (auto simp: putIfNotExists_def put_converted split: sum.splits)
    with assms show ?thesis
      by (rule keysLowercase_put)
  qed
  show f: "keysLowercase c'" if "forget c k = Inr c'" for c'
    using that assms(2)
    by (auto simp: forget_def deleteProp_def keysLowercase_iff
          split: if_splits sum.splits option.splits)
  show "keysLowercase c'" if "remove' c k = Inr c'"
    using that f by (simp add: remove'_def)
  show "keysLowercase (clear c)"
    by (simp add: keysLowercase_iff clear_def emptyObject_def)
qed

text \<open>
  Claim C1 at the input on which the code breaks it:
  \<^verbatim>\<open>new ObjectContainer(undefined, {convertAllKeysToLowerCase: true}).populate({Foo: 1})\<close>.
  \<^verbatim>\<open>populate\<close> copies the key as it is, so the store holds \<^verbatim>\<open>Foo\<close>, which is not in lower
  case, and neither \<^verbatim>\<open>has("Foo")\<close> nor \<^verbatim>\<open>has("foo")\<close> finds the entry.
\<close>

theorem populate_keeps_mixed_case_key:
  "newObjectContainer None (Some \<lparr>keysFlag = Some True, valuesFlag = None\<rparr>)
     = Inr \<lparr>data = emptyObject (Fresh 2),
            config = \<lparr>convertAllKeysToLowerCase = True, convertAllValuesToLowerCase = False\<rparr>,
            created = 3\<rparr>
   \<and> populate \<lparr>data = emptyObject (Fresh 2),
            config = \<lparr>convertAllKeysToLowerCase = True, convertAllValuesToLowerCase = False\<rparr>,
            created = 3\<rparr>
        (objectLiteral (Caller 0) [(''Foo'', Num 1)])
     = Inr \<lparr>data = objectLiteral (Fresh 3) [(''Foo'', Num 1)],
            config = \<lparr>convertAllKeysToLowerCase = True, convertAllValuesToLowerCase = False\<rparr>,
            created = 4\<rparr>
   \<and> keys' \<lparr>data = objectLiteral (Fresh 3) [(''Foo'', Num 1)],
            config = \<lparr>convertAllKeysToLowerCase = True, convertAllValuesToLowerCase = False\<rparr>,
            created = 4\<rparr> = [''Foo'']
   \<and> toLowerCase ''Foo'' \<noteq> ''Foo''
   \<and> \<not> keysLowercase \<lparr>data = objectLiteral (Fresh 3) [(''Foo'', Num 1)],
            config = \<lparr>convertAllKeysToLowerCase = True, convertAllValuesToLowerCase = False\<rparr>,
            created = 4\<rparr>
   \<and> \<not> has \<lparr>data = objectLiteral (Fresh 3) [(''Foo'', Num 1)],
            config = \<lparr>convertAllKeysToLowerCase = True, convertAllValuesToLowerCase = False\<rparr>,
            created = 4\<rparr> ''Foo'' Undefined
   \<and> \<not> has \<lparr>data = objectLiteral (Fresh 3) [(''Foo'', Num 1)],
            config = \<lparr>convertAllKeysToLowerCase = True, convertAllValuesToLowerCase = False\<rparr>,
            created = 4\<rparr> ''foo'' Undefined"
  by code_simp

section \<open>populate and items\<close>

text \<open>
  An object as an object literal leaves it, with more properties assigned or not: its
  prototype is \<^verbatim>\<open>Object.prototype\<close>, it is extensible and its properties are writable.
\<close>

lemma populateLoop_plain:
  assumes "''__proto__'' \<notin> set ks"
    and "proto acc = ObjectPrototype" and "extensible acc"
    and "\<forall>k pr. map_of (props acc) k = Some pr \<longrightarrow> writable pr"
  shows "\<exists>d. populateLoop m acc ks = Inr d \<and> proto d = ObjectPrototype
       \<and> (\<forall>k. map_option propValue (map_of (props d) k)
               = (if k \<in> set ks then Some (readValue m k)
                  else map_option propValue (map_of (props acc) k)))"
  using assms
proof (induction ks arbitrary: acc)
  case Nil
  then show ?case by simp
next
  case (Cons key ks)
  then have key: "key \<noteq> ''__proto__''" and ks: "''__proto__'' \<notin> set ks"
    by auto
  have reach: "findProp acc key \<noteq> Builtin ''__proto__''"
    using key by (rule not_proto_key)
  have "takesWrite acc key"
  proof (cases "findProp acc key")
    case (Own pr)
    then have "map_of (props acc) key = Some pr"
      by (simp add: findProp_Own_iff)
    with Cons.prems(4) have "writable pr"
      by blast
    with Own show ?thesis
      by (simp add: takesWrite_def)
  next
    case (Inherited pr)
    with Cons.prems(2) show ?thesis
      by (simp add: findProp_def split: option.splits if_splits)
  next
    case (Builtin n)
    with Cons.prems(3) show ?thesis
      by (simp add: takesWrite_def)
  next
    case Missing
    with Cons.prems(3) show ?thesis
      by (simp add: takesWrite_def)
  qed
  then obtain d1 where d1: "setProp acc key (readValue m key) = Inr d1"
    using setProp_returns [OF _ reach] by blast
  note st = setProp_stores [OF reach d1]
  from st Cons.prems(2,3) have p1: "proto d1 = ObjectPrototype" and e1: "extensible d1"
    by simp_all
  from st Cons.prems(4) have w1: "\<forall>k pr. map_of (props d1) k = Some pr \<longrightarrow> writable pr"
    by (metis option.inject)
  from Cons.IH [OF ks p1 e1 w1] obtain d where
    d: "populateLoop m d1 ks = Inr d" "proto d = ObjectPrototype"
    and vals: "\<forall>k. map_option propValue (map_of (props d) k)
               = (if k \<in> set ks then Some (readValue m k)
                  else map_option propValue (map_of (props d1) k))"
    by blast
  have "map_option propValue (map_of (props d) k)
      = (if k \<in> set (key # ks) then Some (readValue m k)
         else map_option propValue (map_of (props acc) k))" for k
    using vals st by (cases "k = key") auto
  with d d1 show ?case
    by simp
qed

lemma map_of_literal:
  "map_of (map (\<lambda>kv. (fst kv, dataProp (snd kv))) kvs) k = map_option dataProp (map_of kvs k)"
  by (induction kvs) auto

lemma forInKeys_literal: "forInKeys (objectLiteral i kvs) = map fst kvs"
  by (simp add: forInKeys_def objectLiteral_def enumerableKeys_def dataProp_def comp_def)

lemma readValue_literal:
  assumes "map_of kvs k = Some v"
  shows "readValue (objectLiteral i kvs) k = v"
proof -
  from assms have "map_of (props (objectLiteral i kvs)) k = Some (dataProp v)"
    by (simp add: objectLiteral_def map_of_literal)
  then have "getProp (objectLiteral i kvs) k = Val (propValue (dataProp v))"
    by (rule getProp_own)
  then show ?thesis
    by (simp add: readValue_def dataProp_def)
qed

text \<open>
  Whatever the configuration, \<^verbatim>\<open>populate(m)\<close> with an object literal \<open>m\<close> returns, and
  \<^verbatim>\<open>items()\<close> then yields an object with the prototype \<^verbatim>\<open>Object.prototype\<close> and the entries
  of \<open>m\<close> as they are, when no key of \<open>m\<close> is \<^verbatim>\<open>__proto__\<close>.
\<close>

lemma populate_items_as_is:
  assumes "''__proto__'' \<notin> fst ` set kvs"
  shows "\<exists>c'. populate c (objectLiteral i kvs) = Inr c'
       \<and> proto (items c') = ObjectPrototype
       \<and> (\<forall>k. map_option propValue (map_of (props (items c')) k) = map_of kvs k)"
proof -
  let ?m = "objectLiteral i kvs" and ?acc = "emptyObject (Fresh (created c))"
  from assms have ks: "''__proto__'' \<notin> set (forInKeys ?m)"
    by (simp add: forInKeys_literal)
  have "proto ?acc = ObjectPrototype" and "extensible ?acc"
    and "\<forall>k pr. map_of (props ?acc) k = Some pr \<longrightarrow> writable pr"
    by (simp_all add: emptyObject_def)
  from populateLoop_plain [OF ks this, of ?m] obtain d where
    d: "populateLoop ?m ?acc (forInKeys ?m) = Inr d" "proto d = ObjectPrototype"
    and vals: "\<forall>k. map_option propValue (map_of (props d) k)
               = (if k \<in> set (forInKeys ?m) then Some (readValue ?m k)
                  else map_option propValue (map_of (props ?acc) k))"
    by blast
  have "map_option propValue (map_of (props d) k) = map_of kvs k" for k
  proof (cases "map_of kvs k")
    case None
    then have "k \<notin> set (forInKeys ?m)"
      by (simp add: forInKeys_literal map_of_eq_None_iff)
    with vals None show ?thesis
      by (simp add: emptyObject_def)
  next
    case (Some v)
    then have "k \<in> set (forInKeys ?m)"
      by (force simp: forInKeys_literal dest: map_of_SomeD)
    with vals Some show ?thesis
      by (simp add: readValue_literal)
  qed
  with d show ?thesis
    by (simp add: populate_def items_def)
qed

text \<open>
  Claim C2 at the input on which the code breaks it: on a container that converts keys
  and values, \<^verbatim>\<open>populate({Foo: "Bar"})\<close> followed by \<^verbatim>\<open>items()\<close> yields \<^verbatim>\<open>{Foo: "Bar"}\<close>,
  while the constructor, given the same object and configuration, stores
  \<^verbatim>\<open>{foo: "bar"}\<close>.
\<close>

theorem populate_skips_normalisation:
  "newObjectContainer None (Some \<lparr>keysFlag = Some True, valuesFlag = Some True\<rparr>)
     = Inr \<lparr>data = emptyObject (Fresh 2),
            config = \<lparr>convertAllKeysToLowerCase = True, convertAllValuesToLowerCase = True\<rparr>,
            created = 3\<rparr>
   \<and> populate \<lparr>data = emptyObject (Fresh 2),
            config = \<lparr>convertAllKeysToLowerCase = True, convertAllValuesToLowerCase = True\<rparr>,
            created = 3\<rparr>
        (objectLiteral (Caller 0) [(''Foo'', Str ''Bar'')])
     = Inr \<lparr>data = objectLiteral (Fresh 3) [(''Foo'', Str ''Bar'')],
            config = \<lparr>convertAllKeysToLowerCase = True, convertAllValuesToLowerCase = True\<rparr>,
            created = 4\<rparr>
   \<and> items \<lparr>data = objectLiteral (Fresh 3) [(''Foo'', Str ''Bar'')],
            config = \<lparr>convertAllKeysToLowerCase = True, convertAllValuesToLowerCase = True\<rparr>,
            created = 4\<rparr>
     = objectLiteral (Fresh 3) [(''Foo'', Str ''Bar'')]
   \<and> newObjectContainer (Some (objectLiteral (Caller 0) [(''Foo'', Str ''Bar'')]))
       (Some \<lparr>keysFlag = Some True, valuesFlag = Some True\<rparr>)
     = Inr \<lparr>data = objectLiteral (Fresh 1) [(''foo'', Str ''bar'')],
            config = \<lparr>convertAllKeysToLowerCase = True, convertAllValuesToLowerCase = True\<rparr>,
            created = 2\<rparr>"
  by code_simp

section \<open>Reading back what put has written\<close>

lemma put_stores:
  assumes "convertKey c key \<noteq> ''__proto__''" and "put c key v = Inr c'"
  shows "getProp (data c') (convertKey c' key) = Val (convertValue c v)"
proof -
  from assms(2) obtain d where
    d: "setProp (data c) (convertKey c key) (convertValue c v) = Inr d" and c': "c' = c\<lparr>data := d\<rparr>"
    by (auto simp: put_def split: sum.splits)
  from setProp_stores [OF not_proto_key [OF assms(1)] d]
  obtain pr where "map_of (props d) (convertKey c key) = Some pr" "propValue pr = convertValue c v"
    by blast
  then have "getProp d (convertKey c key) = Val (convertValue c v)"
    by (simp add: getProp_own)
  with c' show ?thesis
    by (simp add: convertKey_def)
qed

text \<open>
  In a container that converts values, \<^verbatim>\<open>put(key, s)\<close> with a string \<open>s\<close>, when it
  returns, followed by \<^verbatim>\<open>get(key)\<close> yields \<open>s\<close> in lower case, for every key that is not
  converted to \<^verbatim>\<open>__proto__\<close>.
\<close>

lemma put_get_lowercased:
  assumes "convertAllValuesToLowerCase (config c)" and "convertKey c key \<noteq> ''__proto__''"
    and "put c key (Str s) = Inr c'"
  shows "get c' key dflt = Val (Str (toLowerCase s))"
  using put_stores [OF assms(2,3)] assms(1)
  by (simp add: get_def convertValue_def)

text \<open>
  Claim C3 at the input on which the code breaks it: in
  \<^verbatim>\<open>new ObjectContainer(undefined, {convertAllValuesToLowerCase: true})\<close> the call
  \<^verbatim>\<open>put("__proto__", "HELLO")\<close> assigns to \<^verbatim>\<open>this.data["__proto__"]\<close>, which the setter of
  \<^verbatim>\<open>Object.prototype\<close> ignores for a string; nothing is stored, and \<^verbatim>\<open>get("__proto__")\<close>
  returns the prototype object instead of \<^verbatim>\<open>"hello"\<close>.
\<close>

theorem put_proto_key_not_stored:
  "newObjectContainer None (Some \<lparr>keysFlag = None, valuesFlag = Some True\<rparr>)
     = Inr \<lparr>data = emptyObject (Fresh 2),
            config = \<lparr>convertAllKeysToLowerCase = False, convertAllValuesToLowerCase = True\<rparr>,
            created = 3\<rparr>
   \<and> toLowerCase ''HELLO'' = ''hello''
   \<and> put \<lparr>data = emptyObject (Fresh 2),
            config = \<lparr>convertAllKeysToLowerCase = False, convertAllValuesToLowerCase = True\<rparr>,
            created = 3\<rparr> ''__proto__'' (Str ''HELLO'')
     = Inr \<lparr>data = emptyObject (Fresh 2),
            config = \<lparr>convertAllKeysToLowerCase = False, convertAllValuesToLowerCase = True\<rparr>,
            created = 3\<rparr>
   \<and> keys' \<lparr>data = emptyObject (Fresh 2),
            config = \<lparr>convertAllKeysToLowerCase = False, convertAllValuesToLowerCase = True\<rparr>,
            created = 3\<rparr> = []
   \<and> get \<lparr>data = emptyObject (Fresh 2),
            config = \<lparr>convertAllKeysToLowerCase = False, convertAllValuesToLowerCase = True\<rparr>,
            created = 3\<rparr> ''__proto__'' None = Intrinsic ''__proto__''
   \<and> get \<lparr>data = emptyObject (Fresh 2),
            config = \<lparr>convertAllKeysToLowerCase = False, convertAllValuesToLowerCase = True\<rparr>,
            created = 3\<rparr> ''__proto__'' None \<noteq> Val (Str (toLowerCase ''HELLO''))"
  by code_simp

section \<open>A key put with undefined\<close>

text \<open>
  After a \<^verbatim>\<open>put(key, undefined)\<close> that returns, \<^verbatim>\<open>has(key)\<close> is false for every key that is
  not converted to \<^verbatim>\<open>__proto__\<close>, the names of the other properties of \<^verbatim>\<open>Object.prototype\<close>
  included: the own property that \<^verbatim>\<open>put\<close> creates hides the inherited one.
\<close>

lemma put_undefined_absent:
  assumes "convertKey c key \<noteq> ''__proto__''" and "put c key Undefined = Inr c'"
  shows "\<not> has c' key Undefined"
  using put_stores [OF assms]
  by (simp add: has_absent_iff convertValue_def)

text \<open>
  Claim C9 at the input on which the code breaks it: \<^verbatim>\<open>new ObjectContainer()\<close>,
  \<^verbatim>\<open>put("__proto__", undefined)\<close>. The assignment reaches the setter of \<^verbatim>\<open>Object.prototype\<close>
  and creates no property, and \<^verbatim>\<open>has("__proto__")\<close> is true after the call, as it was
  before it: the read yields the prototype object, which is not \<^verbatim>\<open>undefined\<close>.
\<close>

theorem put_undefined_proto_key_present:
  "newObjectContainer None None
     = Inr \<lparr>data = emptyObject (Fresh 1), config = defaultConfig, created = 2\<rparr>
   \<and> has \<lparr>data = emptyObject (Fresh 1), config = defaultConfig, created = 2\<rparr>
        ''__proto__'' Undefined = True
   \<and> put \<lparr>data = emptyObject (Fresh 1), config = defaultConfig, created = 2\<rparr>
        ''__proto__'' Undefined
     = Inr \<lparr>data = emptyObject (Fresh 1), config = defaultConfig, created = 2\<rparr>"
  by code_simp

end
